theory Spec2Isabelle
  imports Main
begin

section \<open>Strings\<close>

text \<open>
  JavaScript strings are modelled as \<open>string\<close>. Every pattern the program searches for
  (\<open>\D\<close>, \<open>'62'\<close>, \<open>'0'\<close>, \<open>'{name}'\<close>, the \<open>$\<close> replacement patterns) is ASCII, so the
  results do not depend on how characters beyond ASCII are encoded.
\<close>

definition is_digit :: "char \<Rightarrow> bool" where
  "is_digit c = (c \<in> set ''0123456789'')"

definition startsWith :: "string \<Rightarrow> string \<Rightarrow> bool" where
  \<comment> \<open>\<open>s.startsWith(p)\<close>\<close>
  "startsWith s p = (take (length p) s = p)"

definition substring_from :: "string \<Rightarrow> nat \<Rightarrow> string" where
  \<comment> \<open>\<open>s.substring(n)\<close>\<close>
  "substring_from s n = drop n s"

definition truthy :: "string option \<Rightarrow> bool" where
  \<comment> \<open>a field that is a string or missing (\<open>undefined\<close>/\<open>null\<close>): falsy when missing or empty\<close>
  "truthy v = (case v of None \<Rightarrow> False | Some s \<Rightarrow> s \<noteq> [])"

definition or_else :: "string option \<Rightarrow> string \<Rightarrow> string" where
  \<comment> \<open>\<open>v || d\<close> with a string default\<close>
  "or_else v d = (case v of None \<Rightarrow> d | Some s \<Rightarrow> if s \<noteq> [] then s else d)"

definition or_null :: "string option \<Rightarrow> string option" where
  \<comment> \<open>\<open>v || null\<close>\<close>
  "or_null v = (case v of None \<Rightarrow> None | Some s \<Rightarrow> if s \<noteq> [] then Some s else None)"

section \<open>formatPhoneNumber\<close>

definition formatPhoneNumber :: "string \<Rightarrow> string" where
  "formatPhoneNumber phone =
     (let cleaned = filter is_digit phone;
          cleaned =
            (if \<not> startsWith cleaned ''62'' \<and> startsWith cleaned ''0''
               then ''62'' @ substring_from cleaned 1
             else if \<not> startsWith cleaned ''62'' \<and> \<not> startsWith cleaned ''0''
               then ''62'' @ cleaned
             else cleaned)
      in cleaned @ ''@c.us'')"

text \<open>The digit prefix as the specification words it.\<close>

definition normalized_digits :: "string \<Rightarrow> string" where
  "normalized_digits raw =
     (let d = filter is_digit raw
      in if startsWith d ''62'' then d
         else if startsWith d ''0'' then ''62'' @ drop 1 d
         else ''62'' @ d)"

section \<open>readContactsFromCSV\<close>

text \<open>
  A row as the CSV parser hands it over: an object whose recognised keys are present
  (a string, possibly empty) or absent.
\<close>

record csv_row =
  row_name :: "string option"
  row_phone :: "string option"
  row_message :: "string option"

record contact =
  name :: string
  phone :: string
  message :: "string option"

text \<open>
  What a \<open>throw\<close> or a rejected promise carries: an \<open>Error\<close> object with its message, or
  \<open>undefined\<close> or \<open>null\<close>. Reading \<open>error.message\<close> gives the message of an \<open>Error\<close>
  object and throws a \<open>TypeError\<close> (an \<open>Error\<close> object, with the engine's message) when
  the value is \<open>undefined\<close> or \<open>null\<close>.
\<close>

datatype thrown = Error string | Undefined | Null

definition cannot_read :: "string \<Rightarrow> string \<Rightarrow> thrown" where
  "cannot_read what property =
     Error (''Cannot read properties of '' @ what @ '' (reading '' @ [CHR 0x27] @ property
              @ [CHR 0x27] @ '')'')"

definition read_message :: "thrown \<Rightarrow> thrown + string" where
  \<comment> \<open>\<open>error.message\<close>\<close>
  "read_message error =
     (case error of
        Error m \<Rightarrow> Inr m
      | Undefined \<Rightarrow> Inl (cannot_read ''undefined'' ''message'')
      | Null \<Rightarrow> Inl (cannot_read ''null'' ''message''))"

definition on_data :: "contact list \<Rightarrow> csv_row \<Rightarrow> contact list" where
  \<comment> \<open>the \<open>'data'\<close> handler: \<open>contacts.push(..)\<close> guarded by \<open>row.phone\<close>\<close>
  "on_data contacts row =
     (if truthy (row_phone row)
        then contacts @
          [\<lparr>name = or_else (row_name row) ''Unknown'',
            phone = formatPhoneNumber (the (row_phone row)),
            message = or_null (row_message row)\<rparr>]
      else contacts)"

text \<open>
  What the file system and the parser stream yield for a path: no file, all rows, or
  some rows followed by an \<open>'error'\<close> event of the parser. An error of the file's read
  stream itself, to which the program attaches no listener, is outside the model.
\<close>

datatype csv_stream = Rows "csv_row list" | RowsThenError "csv_row list" thrown

definition readContactsFromCSV ::
  "(string \<Rightarrow> csv_stream option) \<Rightarrow> string \<Rightarrow> thrown + contact list" where
  "readContactsFromCSV fs filePath =
     (case fs filePath of
        None \<Rightarrow> Inl (Error (''CSV file not found: '' @ filePath))
      | Some (Rows rows) \<Rightarrow> Inr (foldl on_data [] rows)
      | Some (RowsThenError rows e) \<Rightarrow> Inl e)"

section \<open>The transport client\<close>

text \<open>
  The client of the messaging library is an external object. Its behaviour is a
  parameter: a state of any type \<open>'s\<close> and one function per method the program calls.
  A call that settles either fulfils (\<open>Inr\<close>) or rejects (\<open>Inl\<close>) with any thrown
  value. \<open>getNumberId\<close> fulfils with an id or with \<open>null\<close>.
  Starting the client and waiting for its \<open>'ready'\<close> event has three outcomes for a
  caller: the client gets ready, \<open>initialize()\<close> rejects, or readiness never arrives
  and the caller stays suspended.
\<close>

datatype init_outcome = Ready | NeverReady | InitFault thrown

record 's client =
  client_initialize :: "'s \<Rightarrow> init_outcome \<times> 's"
  client_getNumberId :: "string \<Rightarrow> 's \<Rightarrow> (thrown + string option) \<times> 's"
  client_sendMessage :: "string \<Rightarrow> string \<Rightarrow> 's \<Rightarrow> (thrown + unit) \<times> 's"

text \<open>
  The trace records, in order, every call the program makes on the client, every
  \<open>sleep\<close>, and every entry into \<open>sendMessage\<close>. Console output is not modelled.
\<close>

datatype event =
    Initialize
  | GetNumberId string
  | SendMessage string string
  | Sleep int
  | Dispatch contact

record 's world =
  client_state :: 's
  senderInstance :: bool
  trace :: "event list"

definition emit :: "event \<Rightarrow> 's world \<Rightarrow> 's world" where
  "emit e w = w\<lparr>trace := trace w @ [e]\<rparr>"

definition is_transport :: "event \<Rightarrow> bool" where
  "is_transport e = (case e of Initialize \<Rightarrow> True | GetNumberId _ \<Rightarrow> True
                      | SendMessage _ _ \<Rightarrow> True | _ \<Rightarrow> False)"

definition is_step :: "event \<Rightarrow> bool" where
  "is_step e = (case e of Sleep _ \<Rightarrow> True | Dispatch _ \<Rightarrow> True | _ \<Rightarrow> False)"

definition is_sleep :: "event \<Rightarrow> bool" where
  "is_sleep e = (case e of Sleep _ \<Rightarrow> True | _ \<Rightarrow> False)"

definition new_events :: "'s world \<Rightarrow> 's world \<Rightarrow> event list" where
  \<comment> \<open>what a run from \<open>w\<close> to \<open>w'\<close> appended to the trace\<close>
  "new_events w w' = drop (length (trace w)) (trace w')"

section \<open>String.prototype.replace with a string pattern\<close>

fun find_first :: "string \<Rightarrow> string \<Rightarrow> (string \<times> string) option" where
  \<comment> \<open>the text in front of and behind the first occurrence of the pattern\<close>
  "find_first pat [] = (if pat = [] then Some ([], []) else None)"
| "find_first pat (c # cs) =
     (if startsWith (c # cs) pat then Some ([], drop (length pat) (c # cs))
      else (case find_first pat cs of
              None \<Rightarrow> None
            | Some (pre, post) \<Rightarrow> Some (c # pre, post)))"

fun get_substitution :: "string \<Rightarrow> string \<Rightarrow> string \<Rightarrow> string \<Rightarrow> string" where
  \<comment> \<open>the replacement text, with \<open>$$\<close>, \<open>$&\<close>, \<open>$`\<close> and \<open>$'\<close> expanded; a string pattern
      has no capture groups, so \<open>$1\<close> .. \<open>$99\<close> and \<open>$<\<close> stay as they are\<close>
  "get_substitution matched pre post (c # d # rest) =
     (if c = CHR ''$'' \<and> d = CHR ''$'' then CHR ''$'' # get_substitution matched pre post rest
      else if c = CHR ''$'' \<and> d = CHR ''&'' then matched @ get_substitution matched pre post rest
      else if c = CHR ''$'' \<and> d = CHR 0x60 then pre @ get_substitution matched pre post rest
      else if c = CHR ''$'' \<and> d = CHR 0x27 then post @ get_substitution matched pre post rest
      else c # get_substitution matched pre post (d # rest))"
| "get_substitution matched pre post rest = rest"

definition js_replace :: "string \<Rightarrow> string \<Rightarrow> string \<Rightarrow> string" where
  \<comment> \<open>\<open>s.replace(pat, repl)\<close>, both strings: the first occurrence only\<close>
  "js_replace s pat repl =
     (case find_first pat s of
        None \<Rightarrow> s
      | Some (pre, post) \<Rightarrow> pre @ get_substitution pat pre post repl @ post)"

text \<open>The substitution as the specification words it: the text itself is put in.\<close>

definition replace_first_with :: "string \<Rightarrow> string \<Rightarrow> string \<Rightarrow> string" where
  "replace_first_with s pat repl =
     (case find_first pat s of
        None \<Rightarrow> s
      | Some (pre, post) \<Rightarrow> pre @ repl @ post)"

section \<open>sendMessage\<close>

text \<open>
  A contact's message is a string or \<open>null\<close>; the default message is a string (the
  empty one when the caller gives none). On entry the call marks the trace with the
  contact it was given.
\<close>

definition sendMessage_try ::
  "'s client \<Rightarrow> contact \<Rightarrow> string \<Rightarrow> 's world \<Rightarrow> (thrown + bool) \<times> 's world" where
  \<comment> \<open>the body of the \<open>try\<close> block\<close>
  "sendMessage_try C contact defaultMessage w =
     (let msg = or_else (message contact) defaultMessage in
      if msg = [] then (Inr False, w)
      else
        let personalizedMessage = js_replace msg ''{name}'' (name contact);
            (numberId, s1) = client_getNumberId C (phone contact) (client_state w);
            w1 = emit (GetNumberId (phone contact)) (w\<lparr>client_state := s1\<rparr>)
        in case numberId of
             Inl e \<Rightarrow> (Inl e, w1)
           | Inr None \<Rightarrow> (Inr False, w1)
           | Inr (Some _) \<Rightarrow>
               let (sent, s2) =
                     client_sendMessage C (phone contact) personalizedMessage (client_state w1);
                   w2 = emit (SendMessage (phone contact) personalizedMessage)
                          (w1\<lparr>client_state := s2\<rparr>)
               in case sent of
                    Inl e \<Rightarrow> (Inl e, w2)
                  | Inr _ \<Rightarrow> (Inr True, w2))"

definition sendMessage ::
  "'s client \<Rightarrow> contact \<Rightarrow> string \<Rightarrow> 's world \<Rightarrow> (thrown + bool) \<times> 's world" where
  \<comment> \<open>\<open>try { .. } catch (error) { console.error(.., error.message); return false; }\<close>:
      the \<open>catch\<close> block reads \<open>error.message\<close> before it returns; \<open>Inl\<close> is an exception
      that leaves the function\<close>
  "sendMessage C contact defaultMessage w =
     (case sendMessage_try C contact defaultMessage (emit (Dispatch contact) w) of
        (Inl error, w') \<Rightarrow>
          (case read_message error of
             Inl type_error \<Rightarrow> (Inl type_error, w')
           | Inr _ \<Rightarrow> (Inr False, w'))
      | (Inr r, w') \<Rightarrow> (Inr r, w'))"

text \<open>The resolution of the text as the specification words it: \<open>contact.message ?? defaultMessage\<close>.\<close>

definition nullish_or :: "string option \<Rightarrow> string \<Rightarrow> string" where
  "nullish_or v d = (case v of None \<Rightarrow> d | Some s \<Rightarrow> s)"

section \<open>sendBulkMessages\<close>

record counters =
  successCount :: nat
  failureCount :: nat

definition sleep :: "int \<Rightarrow> 's world \<Rightarrow> 's world" where
  "sleep ms w = emit (Sleep ms) w"

function send_loop ::
  "'s client \<Rightarrow> contact list \<Rightarrow> string \<Rightarrow> int \<Rightarrow> nat \<Rightarrow> counters \<Rightarrow> 's world
     \<Rightarrow> (thrown + counters) \<times> 's world" where
  \<comment> \<open>the \<open>for\<close> loop, from index \<open>i\<close> on\<close>
  "send_loop C contacts defaultMessage delay i n w =
     (if i < length contacts then
        (case sendMessage C (contacts ! i) defaultMessage w of
           (Inl e, w1) \<Rightarrow> (Inl e, w1)
         | (Inr success, w1) \<Rightarrow>
             send_loop C contacts defaultMessage delay (i + 1)
               (if success then n\<lparr>successCount := successCount n + 1\<rparr>
                else n\<lparr>failureCount := failureCount n + 1\<rparr>)
               (if int i < int (length contacts) - 1 then sleep delay w1 else w1))
      else (Inr n, w))"
  by pat_completeness auto
termination
  by (relation "measure (\<lambda>(C, contacts, defaultMessage, delay, i, n, w). length contacts - i)")
     auto

text \<open>
  \<open>sendBulkMessages\<close> returns \<open>undefined\<close> on every path; what it reports on the console
  is its only result, so the model returns the report: no contacts, the summary with its
  three numbers, or the error it caught. A caller whose client never gets ready is
  suspended for good.
\<close>

datatype report = NoContacts | Summary nat nat nat | Caught thrown | Suspended

definition sendBulkMessages ::
  "'s client \<Rightarrow> (string \<Rightarrow> csv_stream option) \<Rightarrow> string \<Rightarrow> string \<Rightarrow> int \<Rightarrow> 's world
     \<Rightarrow> report \<times> 's world" where
  "sendBulkMessages C fs csvFilePath defaultMessage delay w =
     (let (started, s1) = client_initialize C (client_state w);
          w1 = emit Initialize (w\<lparr>client_state := s1\<rparr>)
      in case started of
           InitFault e \<Rightarrow> (Caught e, w1)
         | NeverReady \<Rightarrow> (Suspended, w1)
         | Ready \<Rightarrow>
             (case readContactsFromCSV fs csvFilePath of
                Inl e \<Rightarrow> (Caught e, w1)
              | Inr contacts \<Rightarrow>
                  if length contacts = 0 then (NoContacts, w1)
                  else
                    (case send_loop C contacts defaultMessage delay 0
                            \<lparr>successCount = 0, failureCount = 0\<rparr> w1 of
                       (Inl e, w2) \<Rightarrow> (Caught e, w2)
                     | (Inr n, w2) \<Rightarrow>
                         (Summary (length contacts) (successCount n) (failureCount n), w2))))"

section \<open>The request handler\<close>

datatype resolution = Resolved | Rejected thrown | Pending

definition initWhatsAppClient :: "'s client \<Rightarrow> 's world \<Rightarrow> resolution \<times> 's world" where
  \<comment> \<open>one call, run on its own from start to end\<close>
  "initWhatsAppClient C w =
     (if \<not> senderInstance w then
        (let (started, s1) = client_initialize C (client_state w);
             w1 = emit Initialize (w\<lparr>senderInstance := True, client_state := s1\<rparr>)
         in case started of
              InitFault e \<Rightarrow> (Rejected e, w1)
            | NeverReady \<Rightarrow> (Pending, w1)
            | Ready \<Rightarrow> (Resolved, w1))
      else (Resolved, w))"

text \<open>
  The fields of the JSON body the handler reads, each a string or missing; the response
  is the status code with the JSON sent.
\<close>

record request =
  req_name :: "string option"
  req_phone :: "string option"
  req_message :: "string option"

datatype body = ErrorBody string | StatusBody string string

record response =
  status :: nat
  json :: body

definition post_send_message ::
  "'s client \<Rightarrow> request \<Rightarrow> 's world \<Rightarrow> response option \<times> 's world" where
  \<comment> \<open>\<open>None\<close>: no response is sent, the handler being suspended or left by an exception
      of its own \<open>catch\<close> block, which reads \<open>error.message\<close>\<close>
  "post_send_message C req w =
     (if \<not> truthy (req_phone req) \<or> \<not> truthy (req_message req) then
        (Some \<lparr>status = 400, json = ErrorBody ''phone and message are required''\<rparr>, w)
      else
        (case initWhatsAppClient C w of
           (Pending, w1) \<Rightarrow> (None, w1)
         | (Rejected error, w1) \<Rightarrow>
             (case read_message error of
                Inl type_error \<Rightarrow> (None, w1)
              | Inr m \<Rightarrow> (Some \<lparr>status = 500, json = ErrorBody m\<rparr>, w1))
         | (Resolved, w1) \<Rightarrow>
             (let contact = \<lparr>name = or_else (req_name req) ''Unknown'',
                             phone = formatPhoneNumber (the (req_phone req)),
                             message = req_message req\<rparr>
              in case sendMessage C contact [] w1 of
                   (Inl error, w2) \<Rightarrow>
                     (case read_message error of
                        Inl type_error \<Rightarrow> (None, w2)
                      | Inr m \<Rightarrow> (Some \<lparr>status = 500, json = ErrorBody m\<rparr>, w2))
                 | (Inr success, w2) \<Rightarrow>
                     if success then
                       (Some \<lparr>status = 200,
                              json = StatusBody ''success''
                                       (''Message sent to '' @ name contact)\<rparr>, w2)
                     else
                       (Some \<lparr>status = 500,
                              json = StatusBody ''failed''
                                       (''Failed to send message to '' @ name contact)\<rparr>, w2))))"

section \<open>What the specification expects of a run\<close>

text \<open>
  A row is accepted when it carries a non-empty phone; the contact emitted for it has the
  normalised phone, the row's name or \<open>Unknown\<close>, and the row's message or \<open>null\<close>.
\<close>

definition has_phone :: "csv_row \<Rightarrow> bool" where
  "has_phone row = (case row_phone row of None \<Rightarrow> False | Some p \<Rightarrow> p \<noteq> [])"

definition emitted_from :: "csv_row \<Rightarrow> contact \<Rightarrow> bool" where
  "emitted_from row c =
     ((case row_phone row of None \<Rightarrow> False
        | Some p \<Rightarrow> p \<noteq> [] \<and> phone c = formatPhoneNumber p)
      \<and> (case row_name row of None \<Rightarrow> name c = ''Unknown''
          | Some n \<Rightarrow> name c = (if n = [] then ''Unknown'' else n))
      \<and> (case row_message row of None \<Rightarrow> message c = None
          | Some m \<Rightarrow> message c = (if m = [] then None else Some m)))"

text \<open>
  The order of a batch: one dispatch per contact, in the order of the list, and one sleep
  between two consecutive dispatches.
\<close>

fun expected_steps :: "int \<Rightarrow> contact list \<Rightarrow> event list" where
  "expected_steps delay [] = []"
| "expected_steps delay [c] = [Dispatch c]"
| "expected_steps delay (c # cs) = Dispatch c # Sleep delay # expected_steps delay cs"

fun dispatched :: "event list \<Rightarrow> contact list" where
  "dispatched [] = []"
| "dispatched (Dispatch c # es) = c # dispatched es"
| "dispatched (e # es) = dispatched es"

section \<open>initWhatsAppClient, call by call\<close>

text \<open>
  An \<open>async\<close> function runs without interruption up to its next \<open>await\<close>, where other
  calls and the client's events may run. The registry holds what the calls share: the
  module variable \<open>senderInstance\<close> (the number of the object it holds, objects being
  numbered as \<open>new WhatsAppBulkSender()\<close> makes them), the objects whose
  \<open>client.initialize()\<close> was called, the objects whose \<open>client.info\<close> is set, and where
  each call of \<open>initWhatsAppClient\<close> stands: waiting for \<open>initialize()\<close> of an object,
  waiting for the \<open>'ready'\<close> event of an object, returned (with what \<open>senderInstance\<close>
  holds for the caller at that moment), or left by an exception.
\<close>

datatype call_state = AwaitInitialize nat | AwaitReady nat | Returned "nat option" | Threw

record registry =
  sender_instance :: "nat option"
  constructed :: nat
  initialize_calls :: "nat list"
  info :: "nat set"
  calls :: "call_state list"

text \<open>
  What can happen next: a new call, the \<open>initialize()\<close> a call waits for fulfilling or
  rejecting, and a client becoming ready (\<open>info\<close> is set and the \<open>'ready'\<close> listeners
  run). An action that cannot happen in a state leaves it as it is.
\<close>

datatype action = Call | InitializeResolves nat | InitializeRejects nat | ReadyEvent nat

definition wait_for_ready :: "registry \<Rightarrow> call_state" where
  "wait_for_ready r =
     (case sender_instance r of
        None \<Rightarrow> Threw
      | Some k \<Rightarrow> if k \<in> info r then Returned (sender_instance r) else AwaitReady k)"

fun step :: "action \<Rightarrow> registry \<Rightarrow> registry" where
  "step Call r =
     (case sender_instance r of
        None \<Rightarrow>
          r\<lparr>sender_instance := Some (constructed r),
            constructed := constructed r + 1,
            initialize_calls := initialize_calls r @ [constructed r],
            calls := calls r @ [AwaitInitialize (constructed r)]\<rparr>
      | Some k \<Rightarrow> r\<lparr>calls := calls r @ [Returned (sender_instance r)]\<rparr>)"
| "step (InitializeResolves i) r =
     (if i < length (calls r) then
        (case calls r ! i of
           AwaitInitialize k \<Rightarrow> r\<lparr>calls := (calls r)[i := wait_for_ready r]\<rparr>
         | _ \<Rightarrow> r)
      else r)"
| "step (InitializeRejects i) r =
     (if i < length (calls r) then
        (case calls r ! i of
           AwaitInitialize k \<Rightarrow> r\<lparr>calls := (calls r)[i := Threw]\<rparr>
         | _ \<Rightarrow> r)
      else r)"
| "step (ReadyEvent k) r =
     (if k \<in> set (initialize_calls r) then
        r\<lparr>info := insert k (info r),
          calls := map (\<lambda>c. if c = AwaitReady k then Returned (sender_instance r) else c)
                     (calls r)\<rparr>
      else r)"

definition run :: "action list \<Rightarrow> registry \<Rightarrow> registry" where
  "run as r = foldl (\<lambda>r a. step a r) r as"

definition cold :: registry where
  "cold = \<lparr>sender_instance = None, constructed = 0, initialize_calls = [], info = {},
            calls = []\<rparr>"

definition first_object :: "call_state \<Rightarrow> bool" where
  "first_object c =
     (case c of AwaitInitialize k \<Rightarrow> k = 0 | AwaitReady k \<Rightarrow> k = 0
      | Returned x \<Rightarrow> x = Some 0 | Threw \<Rightarrow> True)"

definition single_session :: "registry \<Rightarrow> bool" where
  "single_session r =
     (constructed r \<le> 1
      \<and> initialize_calls r = [0..<constructed r]
      \<and> sender_instance r = (if constructed r = 0 then None else Some 0)
      \<and> (constructed r = 0 \<longrightarrow> calls r = [])
      \<and> list_all first_object (calls r))"

section \<open>Clients and inputs for the examples\<close>

definition fake_client ::
  "init_outcome \<Rightarrow> (string \<Rightarrow> thrown + string option) \<Rightarrow> (string \<Rightarrow> string \<Rightarrow> thrown + unit)
     \<Rightarrow> unit client" where
  "fake_client started registered delivered =
     \<lparr>client_initialize = (\<lambda>s. (started, s)),
      client_getNumberId = (\<lambda>p s. (registered p, s)),
      client_sendMessage = (\<lambda>p t s. (delivered p t, s))\<rparr>"

definition fresh :: "unit world" where
  "fresh = \<lparr>client_state = (), senderInstance = False, trace = []\<rparr>"

definition three_rows :: "csv_row list" where
  "three_rows =
     [\<lparr>row_name = None, row_phone = Some ''0812'', row_message = None\<rparr>,
      \<lparr>row_name = Some ''Ani'', row_phone = Some [], row_message = Some ''Hi''\<rparr>,
      \<lparr>row_name = Some ''Budi'', row_phone = Some ''62813'', row_message = Some ''Halo''\<rparr>]"

definition two_rows :: "csv_row list" where
  "two_rows =
     [\<lparr>row_name = Some ''Ani'', row_phone = Some ''0811'', row_message = None\<rparr>,
      \<lparr>row_name = Some ''Citra'', row_phone = Some ''0813'', row_message = None\<rparr>]"

definition ani :: contact where
  "ani = \<lparr>name = ''Ani'', phone = ''62811@c.us'', message = None\<rparr>"

definition budi :: contact where
  "budi = \<lparr>name = ''Budi'', phone = ''62812@c.us'', message = Some ''Halo {name}''\<rparr>"

definition citra :: contact where
  "citra = \<lparr>name = ''Citra'', phone = ''62813@c.us'', message = None\<rparr>"

definition picky_client :: "unit client" where
  \<comment> \<open>Ani is delivered to, Budi is not registered, sending to anyone else faults\<close>
  "picky_client =
     fake_client Ready
       (\<lambda>p. if p = ''62812@c.us'' then Inr None else Inr (Some p))
       (\<lambda>p t. if p = ''62811@c.us'' then Inr () else Inl (Error ''Protocol error''))"

section \<open>Properties of formatPhoneNumber\<close>

lemma startsWith_62_cases:
  "startsWith d ''62'' \<Longrightarrow> \<not> startsWith d ''0''"
  by (cases d) (auto simp: startsWith_def)

lemma formatPhoneNumber_digits:
  "formatPhoneNumber raw = normalized_digits raw @ ''@c.us''"
  by (auto simp: formatPhoneNumber_def normalized_digits_def Let_def substring_from_def
      dest: startsWith_62_cases)

lemma normalized_digits_all_digits: "list_all is_digit (normalized_digits raw)"
proof -
  have d: "list_all is_digit (filter is_digit raw)"
    by (simp add: list_all_iff)
  have d1: "list_all is_digit (drop 1 (filter is_digit raw))"
    using d by (metis append_take_drop_id list_all_append)
  have c: "list_all is_digit ''62''"
    by (simp add: is_digit_def)
  show ?thesis
    using d d1 c by (simp add: normalized_digits_def Let_def)
qed

text \<open>
  C2: for every raw string, \<open>formatPhoneNumber\<close> (a total function) returns the digits
  \<open>D\<close> followed by \<open>@c.us\<close>, where \<open>D\<close> is the input stripped of every non-digit and
  then left unchanged if it starts with \<open>62\<close>, has a leading \<open>0\<close> replaced by \<open>62\<close>, or
  has \<open>62\<close> prepended otherwise; only digits stand in front of the suffix, and digits
  that already start with \<open>62\<close> are kept as they are.
\<close>

theorem formatPhoneNumber_normalizes:
  "formatPhoneNumber raw = normalized_digits raw @ ''@c.us''
   \<and> list_all is_digit (normalized_digits raw)
   \<and> (startsWith (filter is_digit raw) ''62''
        \<longrightarrow> formatPhoneNumber raw = filter is_digit raw @ ''@c.us'')
   \<and> (\<not> startsWith (filter is_digit raw) ''62'' \<and> startsWith (filter is_digit raw) ''0''
        \<longrightarrow> formatPhoneNumber raw = ''62'' @ drop 1 (filter is_digit raw) @ ''@c.us'')
   \<and> (\<not> startsWith (filter is_digit raw) ''62'' \<and> \<not> startsWith (filter is_digit raw) ''0''
        \<longrightarrow> formatPhoneNumber raw = ''62'' @ filter is_digit raw @ ''@c.us'')"
  using formatPhoneNumber_digits [of raw] normalized_digits_all_digits [of raw]
  by (simp add: normalized_digits_def Let_def)

theorem formatPhoneNumber_normalizes_witness:
  "formatPhoneNumber ''+62 812-3456'' = ''628123456@c.us''
   \<and> formatPhoneNumber ''0812 3456'' = ''628123456@c.us''
   \<and> formatPhoneNumber ''812x3456'' = ''628123456@c.us''"
  using formatPhoneNumber_normalizes [of "''+62 812-3456''"]
    formatPhoneNumber_normalizes [of "''0812 3456''"]
    formatPhoneNumber_normalizes [of "''812x3456''"]
  by (simp add: is_digit_def startsWith_def normalized_digits_def)

section \<open>Properties of readContactsFromCSV\<close>

lemma on_data_emitted:
  "has_phone row \<Longrightarrow> \<exists>c. on_data cs row = cs @ [c] \<and> emitted_from row c"
  by (auto simp: on_data_def has_phone_def truthy_def emitted_from_def or_else_def or_null_def
      split: option.splits)

lemma on_data_skipped: "\<not> has_phone row \<Longrightarrow> on_data cs row = cs"
  by (auto simp: on_data_def has_phone_def truthy_def split: option.splits)

lemma foldl_on_data:
  "list_all2 emitted_from (filter has_phone seen) acc \<Longrightarrow>
     list_all2 emitted_from (filter has_phone (seen @ rows)) (foldl on_data acc rows)"
proof (induction rows arbitrary: seen acc)
  case Nil
  then show ?case by simp
next
  case (Cons row rows)
  have "list_all2 emitted_from (filter has_phone (seen @ [row])) (on_data acc row)"
  proof (cases "has_phone row")
    case True
    then obtain c where "on_data acc row = acc @ [c]" "emitted_from row c"
      using on_data_emitted by blast
    with True Cons.prems show ?thesis
      by (simp add: list_all2_appendI)
  next
    case False
    with Cons.prems show ?thesis
      by (simp add: on_data_skipped)
  qed
  from Cons.IH [OF this] show ?case by simp
qed

text \<open>
  C8: when the file is read to its end, the contacts are, in order, those of exactly the
  rows with a non-empty phone; each has the name \<open>Unknown\<close> when the row has none, the
  message \<open>null\<close> when the row has none, and the phone already formatted by
  \<open>formatPhoneNumber\<close>.
\<close>

theorem readContactsFromCSV_contacts:
  "fs filePath = Some (Rows rows) \<Longrightarrow>
     \<exists>contacts. readContactsFromCSV fs filePath = Inr contacts
       \<and> list_all2 emitted_from (filter has_phone rows) contacts"
proof -
  assume r: "fs filePath = Some (Rows rows)"
  have "list_all2 emitted_from (filter has_phone ([] @ rows)) (foldl on_data [] rows)"
    by (rule foldl_on_data) simp
  with r show ?thesis by (simp add: readContactsFromCSV_def)
qed

theorem readContactsFromCSV_contacts_witness:
  "readContactsFromCSV (\<lambda>p. Some (Rows three_rows)) ''contacts.csv''
     = Inr [\<lparr>name = ''Unknown'', phone = ''62812@c.us'', message = None\<rparr>,
            \<lparr>name = ''Budi'', phone = ''62813@c.us'', message = Some ''Halo''\<rparr>]
   \<and> filter has_phone three_rows
     = [\<lparr>row_name = None, row_phone = Some ''0812'', row_message = None\<rparr>,
        \<lparr>row_name = Some ''Budi'', row_phone = Some ''62813'', row_message = Some ''Halo''\<rparr>]
   \<and> list_all2 emitted_from (filter has_phone three_rows)
        [\<lparr>name = ''Unknown'', phone = ''62812@c.us'', message = None\<rparr>,
         \<lparr>name = ''Budi'', phone = ''62813@c.us'', message = Some ''Halo''\<rparr>]"
proof -
  have e: "readContactsFromCSV (\<lambda>p. Some (Rows three_rows)) ''contacts.csv''
      = Inr [\<lparr>name = ''Unknown'', phone = ''62812@c.us'', message = None\<rparr>,
             \<lparr>name = ''Budi'', phone = ''62813@c.us'', message = Some ''Halo''\<rparr>]"
    by (simp add: three_rows_def readContactsFromCSV_def on_data_def truthy_def or_else_def
        or_null_def formatPhoneNumber_def is_digit_def startsWith_def substring_from_def)
  have f: "filter has_phone three_rows
      = [\<lparr>row_name = None, row_phone = Some ''0812'', row_message = None\<rparr>,
         \<lparr>row_name = Some ''Budi'', row_phone = Some ''62813'', row_message = Some ''Halo''\<rparr>]"
    by (simp add: three_rows_def has_phone_def)
  have "(\<lambda>p. Some (Rows three_rows)) ''contacts.csv'' = Some (Rows three_rows)"
    by simp
  from readContactsFromCSV_contacts [OF this] e f show ?thesis
    by (simp add: emitted_from_def formatPhoneNumber_def is_digit_def startsWith_def
        substring_from_def)
qed

section \<open>Properties of sendMessage\<close>

lemma sendMessage_try_trace:
  "sendMessage_try C c dm w = (r, w') \<Longrightarrow>
     \<exists>evs. trace w' = trace w @ evs \<and> filter is_step evs = []
       \<and> senderInstance w' = senderInstance w"
  by (auto simp: sendMessage_try_def Let_def emit_def is_step_def
      split: if_splits prod.splits sum.splits option.splits)

lemma sendMessage_throws_type_error:
  "sendMessage C c dm w = (Inl e, w') \<Longrightarrow>
     e = cannot_read ''undefined'' ''message'' \<or> e = cannot_read ''null'' ''message''"
  by (auto simp: sendMessage_def read_message_def
      split: prod.splits sum.splits thrown.splits)

lemma sendMessage_returns:
  assumes "\<And>p s. fst (client_getNumberId C p s) \<notin> {Inl Undefined, Inl Null}"
    and "\<And>p t s. fst (client_sendMessage C p t s) \<notin> {Inl Undefined, Inl Null}"
  shows "\<exists>b w'. sendMessage C c dm w = (Inr b, w')"
proof -
  let ?text = "js_replace (or_else (message c) dm) ''{name}'' (name c)"
  obtain r1 s1 where g: "client_getNumberId C (phone c) (client_state w) = (r1, s1)"
    by force
  obtain r2 s2 where d: "client_sendMessage C (phone c) ?text s1 = (r2, s2)"
    by force
  have n1: "r1 \<noteq> Inl Undefined" "r1 \<noteq> Inl Null"
    using assms(1) [of "phone c" "client_state w"] g by auto
  have n2: "r2 \<noteq> Inl Undefined" "r2 \<noteq> Inl Null"
    using assms(2) [of "phone c" ?text s1] d by auto
  show ?thesis
    using g d n1 n2
    by (auto simp: sendMessage_def sendMessage_try_def read_message_def Let_def emit_def
        split: sum.splits option.splits thrown.splits)
qed

lemma sendMessage_trace:
  "sendMessage C c dm w = (r, w') \<Longrightarrow>
     \<exists>evs. trace w' = trace w @ Dispatch c # evs \<and> filter is_step evs = []
       \<and> senderInstance w' = senderInstance w"
  by (auto simp: sendMessage_def emit_def split: prod.splits sum.splits
      dest!: sendMessage_try_trace)

lemma sendMessage_events:
  "sendMessage C c dm w = (r, w') \<Longrightarrow>
     \<exists>evs. trace w' = trace w @ evs
       \<and> set evs \<subseteq> {Dispatch c, GetNumberId (phone c),
                      SendMessage (phone c) (js_replace (or_else (message c) dm) ''{name}'' (name c))}
       \<and> (r = Inr True
            \<longrightarrow> SendMessage (phone c) (js_replace (or_else (message c) dm) ''{name}'' (name c))
                  \<in> set evs)"
  by (auto simp: sendMessage_def sendMessage_try_def read_message_def Let_def emit_def
      split: prod.splits sum.splits option.splits if_splits thrown.splits)

text \<open>
  A rejection with an \<open>Error\<close> object is caught and turned into \<open>false\<close>, at the check of
  the number and at the send.
\<close>

lemma sendMessage_catches_errors:
  "(fst (client_getNumberId C (phone c) (client_state w)) = Inl (Error m)
      \<longrightarrow> fst (sendMessage C c dm w) = Inr False)
   \<and> (fst (client_getNumberId C (phone c) (client_state w)) = Inr (Some i)
        \<and> fst (client_sendMessage C (phone c)
                 (js_replace (or_else (message c) dm) ''{name}'' (name c))
                 (snd (client_getNumberId C (phone c) (client_state w)))) = Inl (Error m')
        \<longrightarrow> fst (sendMessage C c dm w) = Inr False)"
  by (auto simp: sendMessage_def sendMessage_try_def read_message_def Let_def emit_def
      split: prod.splits sum.splits option.splits)

text \<open>
  C3: a client whose \<open>getNumberId\<close> rejects with \<open>undefined\<close>, and one whose
  \<open>sendMessage\<close> rejects with \<open>null\<close>. The \<open>catch\<close> block of \<open>sendMessage\<close> reads
  \<open>error.message\<close>, which throws a \<open>TypeError\<close>, and this exception leaves \<open>sendMessage\<close>
  in place of the value \<open>false\<close>.
\<close>

theorem sendMessage_rethrows_nullish:
  "sendMessage (fake_client Ready (\<lambda>p. Inl Undefined) (\<lambda>p t. Inr ())) ani ''Hi {name}'' fresh
     = (Inl (cannot_read ''undefined'' ''message''),
        \<lparr>client_state = (), senderInstance = False,
         trace = [Dispatch ani, GetNumberId ''62811@c.us'']\<rparr>)
   \<and> sendMessage (fake_client Ready (\<lambda>p. Inr (Some p)) (\<lambda>p t. Inl Null)) ani ''Hi {name}'' fresh
     = (Inl (cannot_read ''null'' ''message''),
        \<lparr>client_state = (), senderInstance = False,
         trace = [Dispatch ani, GetNumberId ''62811@c.us'',
                  SendMessage ''62811@c.us'' ''Hi Ani'']\<rparr>)"
  by (simp add: sendMessage_def sendMessage_try_def read_message_def or_else_def
      js_replace_def startsWith_def emit_def fake_client_def fresh_def ani_def)

text \<open>
  C4, as the claim states it, fails: a contact whose message is the empty string and a
  default \<open>Hi\<close> resolve to no text under \<open>??\<close>, yet the program checks the number and
  sends \<open>Hi\<close>.
\<close>

theorem sendMessage_nullish_counterexample:
  "nullish_or (message \<lparr>name = ''Ani'', phone = ''62812@c.us'', message = Some []\<rparr>) ''Hi'' = []
   \<and> sendMessage (fake_client Ready (\<lambda>p. Inr (Some p)) (\<lambda>p t. Inr ()))
        \<lparr>name = ''Ani'', phone = ''62812@c.us'', message = Some []\<rparr> ''Hi'' fresh
     = (Inr True,
        \<lparr>client_state = (), senderInstance = False,
         trace = [Dispatch \<lparr>name = ''Ani'', phone = ''62812@c.us'', message = Some []\<rparr>,
                  GetNumberId ''62812@c.us'', SendMessage ''62812@c.us'' ''Hi'']\<rparr>)"
  by (simp add: nullish_or_def sendMessage_def sendMessage_try_def or_else_def js_replace_def
      startsWith_def emit_def fake_client_def fresh_def)

text \<open>
  C4, amended: the text is \<open>contact.message || defaultMessage\<close>, which is
  \<open>contact.message ?? defaultMessage\<close> unless the contact's message is the empty string;
  when that text is empty \<open>sendMessage\<close> returns \<open>false\<close> and calls nothing on the client
  (the world is only marked with the dispatch); every text it hands to the client is the
  text so resolved, after the replacement of \<open>{name}\<close>.
\<close>

theorem sendMessage_no_text:
  "(or_else (message c) dm = []
      \<longrightarrow> sendMessage C c dm w = (Inr False, emit (Dispatch c) w))
   \<and> (message c \<noteq> Some [] \<longrightarrow> or_else (message c) dm = nullish_or (message c) dm)
   \<and> (\<forall>e \<in> set (new_events w (snd (sendMessage C c dm w))).
         \<forall>p t. e = SendMessage p t
           \<longrightarrow> t = js_replace (or_else (message c) dm) ''{name}'' (name c))"
  by (auto simp: sendMessage_def sendMessage_try_def read_message_def Let_def emit_def
      new_events_def or_else_def nullish_or_def
      split: prod.splits sum.splits option.splits if_splits thrown.splits)

theorem sendMessage_no_text_witness:
  "or_else (message \<lparr>name = ''Ani'', phone = ''62812@c.us'', message = None\<rparr>) [] = []
   \<and> sendMessage (fake_client Ready (\<lambda>p. Inr (Some p)) (\<lambda>p t. Inr ()))
        \<lparr>name = ''Ani'', phone = ''62812@c.us'', message = None\<rparr> [] fresh
     = (Inr False,
        \<lparr>client_state = (), senderInstance = False,
         trace = [Dispatch \<lparr>name = ''Ani'', phone = ''62812@c.us'', message = None\<rparr>]\<rparr>)
   \<and> or_else (message \<lparr>name = ''Ani'', phone = ''62812@c.us'', message = Some []\<rparr>) ''Halo {name}''
     = ''Halo {name}''
   \<and> js_replace ''Halo {name}'' ''{name}'' ''Ani'' = ''Halo Ani''
   \<and> new_events fresh
        (snd (sendMessage (fake_client Ready (\<lambda>p. Inr (Some p)) (\<lambda>p t. Inr ()))
                \<lparr>name = ''Ani'', phone = ''62812@c.us'', message = Some []\<rparr>
                ''Halo {name}'' fresh))
     = [Dispatch \<lparr>name = ''Ani'', phone = ''62812@c.us'', message = Some []\<rparr>,
        GetNumberId ''62812@c.us'', SendMessage ''62812@c.us'' ''Halo Ani'']"
proof -
  have r: "js_replace ''Halo {name}'' ''{name}'' ''Ani'' = ''Halo Ani''"
    by (simp add: js_replace_def startsWith_def)
  have s: "sendMessage (fake_client Ready (\<lambda>p. Inr (Some p)) (\<lambda>p t. Inr ()))
             \<lparr>name = ''Ani'', phone = ''62812@c.us'', message = Some []\<rparr> ''Halo {name}'' fresh
           = (Inr True,
              \<lparr>client_state = (), senderInstance = False,
               trace = [Dispatch \<lparr>name = ''Ani'', phone = ''62812@c.us'', message = Some []\<rparr>,
                        GetNumberId ''62812@c.us'', SendMessage ''62812@c.us'' ''Halo Ani'']\<rparr>)"
    by (simp add: sendMessage_def sendMessage_try_def or_else_def r emit_def
        fake_client_def fresh_def)
  show ?thesis
    using sendMessage_no_text
        [of "\<lparr>name = ''Ani'', phone = ''62812@c.us'', message = None\<rparr>" "[]"
            "fake_client Ready (\<lambda>p. Inr (Some p)) (\<lambda>p t. Inr ())" fresh]
      sendMessage_no_text
        [of "\<lparr>name = ''Ani'', phone = ''62812@c.us'', message = Some []\<rparr>" "''Halo {name}''"
            "fake_client Ready (\<lambda>p. Inr (Some p)) (\<lambda>p t. Inr ())" fresh]
      s r
    by (simp add: or_else_def emit_def fresh_def new_events_def)
qed

lemma get_substitution_plain:
  "CHR ''$'' \<notin> set repl \<Longrightarrow> get_substitution matched pre post repl = repl"
  by (induction matched pre post repl rule: get_substitution.induct) auto

lemma js_replace_plain:
  "CHR ''$'' \<notin> set repl \<Longrightarrow> js_replace s pat repl = replace_first_with s pat repl"
  by (simp add: js_replace_def replace_first_with_def get_substitution_plain
      split: option.splits)

text \<open>
  With a text to send, \<open>sendMessage\<close> returns \<open>true\<close> exactly when the number is
  registered and the client's \<open>sendMessage\<close> fulfils; an unregistered number gives
  \<open>false\<close> after the check alone.
\<close>

lemma sendMessage_outcome:
  "or_else (message c) dm \<noteq> [] \<Longrightarrow>
     (fst (sendMessage C c dm w) = Inr True
        \<longleftrightarrow> (\<exists>i u. fst (client_getNumberId C (phone c) (client_state w)) = Inr (Some i)
              \<and> fst (client_sendMessage C (phone c)
                       (js_replace (or_else (message c) dm) ''{name}'' (name c))
                       (snd (client_getNumberId C (phone c) (client_state w)))) = Inr u))
     \<and> (fst (sendMessage C c dm w) = Inr True
          \<longrightarrow> new_events w (snd (sendMessage C c dm w))
              = [Dispatch c, GetNumberId (phone c),
                 SendMessage (phone c) (js_replace (or_else (message c) dm) ''{name}'' (name c))])
     \<and> (fst (client_getNumberId C (phone c) (client_state w)) = Inr None
          \<longrightarrow> fst (sendMessage C c dm w) = Inr False
              \<and> new_events w (snd (sendMessage C c dm w)) = [Dispatch c, GetNumberId (phone c)])"
  by (auto simp: sendMessage_def sendMessage_try_def read_message_def Let_def emit_def
      new_events_def
      split: prod.splits sum.splits option.splits thrown.splits)

text \<open>
  C5: for the contact named \<open>A$$B\<close> and the text \<open>Hi {name}\<close>, with the number
  registered and the send fulfilled, \<open>sendMessage\<close> returns \<open>true\<close> and the text handed
  to the client is \<open>Hi A$B\<close>, whereas the text with \<open>{name}\<close> replaced by the contact's
  name is \<open>Hi A$$B\<close>: \<open>replace\<close> reads \<open>$$\<close>, \<open>$&\<close>, \<open>$`\<close> and \<open>$'\<close> in the name as
  replacement patterns.
\<close>

theorem sendMessage_dollar_in_name:
  "sendMessage (fake_client Ready (\<lambda>p. Inr (Some p)) (\<lambda>p t. Inr ()))
     \<lparr>name = ''A$$B'', phone = ''62812@c.us'', message = Some ''Hi {name}''\<rparr> [] fresh
   = (Inr True,
      \<lparr>client_state = (), senderInstance = False,
       trace = [Dispatch \<lparr>name = ''A$$B'', phone = ''62812@c.us'', message = Some ''Hi {name}''\<rparr>,
                GetNumberId ''62812@c.us'', SendMessage ''62812@c.us'' ''Hi A$B'']\<rparr>)
   \<and> replace_first_with ''Hi {name}'' ''{name}'' ''A$$B'' = ''Hi A$$B''"
  by (simp add: sendMessage_def sendMessage_try_def or_else_def js_replace_def
      replace_first_with_def startsWith_def emit_def fake_client_def fresh_def)

section \<open>Properties of the loop of sendBulkMessages\<close>

lemma dispatched_expected_steps: "dispatched (expected_steps delay cs) = cs"
  by (induction delay cs rule: expected_steps.induct) auto

lemma sleeps_expected_steps:
  "filter is_sleep (expected_steps delay cs) = replicate (length cs - 1) (Sleep delay)"
  by (induction delay cs rule: expected_steps.induct) (auto simp: is_sleep_def)

lemma dispatched_filter_is_step: "dispatched (filter is_step es) = dispatched es"
  by (induction es rule: dispatched.induct) (auto simp: is_step_def)

lemma is_sleep_filter_is_step: "filter is_sleep (filter is_step es) = filter is_sleep es"
  by (induction es) (auto simp: is_step_def is_sleep_def split: event.splits)

lemma expected_steps_drop:
  "i < length cs \<Longrightarrow>
     expected_steps delay (drop i cs)
       = Dispatch (cs ! i)
           # (if Suc i < length cs then Sleep delay # expected_steps delay (drop (Suc i) cs)
              else [])"
proof -
  assume i: "i < length cs"
  then have d: "drop i cs = cs ! i # drop (Suc i) cs"
    by (simp add: Cons_nth_drop_Suc)
  show ?thesis
  proof (cases "Suc i < length cs")
    case True
    then obtain x xs where "drop (Suc i) cs = x # xs"
      by (cases "drop (Suc i) cs") auto
    with d True show ?thesis by simp
  next
    case False
    with d show ?thesis by simp
  qed
qed

text \<open>
  As long as no exception leaves \<open>sendMessage\<close>, the loop runs to its end, with one
  dispatch per contact in the order of the list and one sleep between two consecutive
  dispatches.
\<close>

lemma send_loop_from:
  assumes ret: "\<And>c w. \<exists>b w'. sendMessage C c dm w = (Inr b, w')"
  shows "i \<le> length contacts \<Longrightarrow>
     \<exists>n' w' evs. send_loop C contacts dm delay i n w = (Inr n', w')
       \<and> trace w' = trace w @ evs
       \<and> filter is_step evs = expected_steps delay (drop i contacts)
       \<and> successCount n' + failureCount n'
           = successCount n + failureCount n + (length contacts - i)"
proof (induction "length contacts - i" arbitrary: i n w)
  case 0
  then have "i = length contacts" by simp
  then show ?case by simp
next
  case (Suc k)
  then have i: "i < length contacts" by simp
  obtain b w1 where s: "sendMessage C (contacts ! i) dm w = (Inr b, w1)"
    using ret by blast
  obtain evs0 where e0: "trace w1 = trace w @ Dispatch (contacts ! i) # evs0"
      "filter is_step evs0 = []"
    using sendMessage_trace [OF s] by blast
  let ?n1 = "if b then n\<lparr>successCount := successCount n + 1\<rparr>
             else n\<lparr>failureCount := failureCount n + 1\<rparr>"
  let ?w2 = "if int i < int (length contacts) - 1 then sleep delay w1 else w1"
  have k: "k = length contacts - (i + 1)" using Suc.hyps(2) by simp
  have le: "i + 1 \<le> length contacts" using i by simp
  obtain n' w' evs where r: "send_loop C contacts dm delay (i + 1) ?n1 ?w2 = (Inr n', w')"
      "trace w' = trace ?w2 @ evs"
      "filter is_step evs = expected_steps delay (drop (i + 1) contacts)"
      "successCount n' + failureCount n'
         = successCount ?n1 + failureCount ?n1 + (length contacts - (i + 1))"
    using Suc.hyps(1) [OF k le, of ?n1 ?w2] by blast
  have unfold: "send_loop C contacts dm delay i n w
      = send_loop C contacts dm delay (i + 1) ?n1 ?w2"
    using i s by (subst send_loop.simps) simp
  have t2: "trace ?w2 = trace w @ Dispatch (contacts ! i) # evs0
              @ (if Suc i < length contacts then [Sleep delay] else [])"
    using e0(1) by (auto simp: sleep_def emit_def)
  have steps: "filter is_step (Dispatch (contacts ! i) # evs0
                 @ (if Suc i < length contacts then [Sleep delay] else []) @ evs)
               = expected_steps delay (drop i contacts)"
    using e0(2) r(3) i by (simp add: expected_steps_drop is_step_def)
  have count: "successCount n' + failureCount n'
      = successCount n + failureCount n + (length contacts - i)"
    using r(4) i by (simp split: if_splits)
  show ?case
    using unfold r(1,2) t2 steps count by (intro exI conjI) (assumption | simp)+
qed

lemma send_loop_steps:
  assumes "contacts \<noteq> []"
    and "\<And>p s. fst (client_getNumberId C p s) \<notin> {Inl Undefined, Inl Null}"
    and "\<And>p t s. fst (client_sendMessage C p t s) \<notin> {Inl Undefined, Inl Null}"
  shows "\<exists>n' w'. send_loop C contacts dm delay 0 n w = (Inr n', w')
           \<and> filter is_step (new_events w w') = expected_steps delay contacts
           \<and> dispatched (new_events w w') = contacts
           \<and> filter is_sleep (new_events w w') = replicate (length contacts - 1) (Sleep delay)
           \<and> successCount n' + failureCount n'
               = successCount n + failureCount n + length contacts"
proof -
  have ret: "\<And>c w. \<exists>b w'. sendMessage C c dm w = (Inr b, w')"
    using sendMessage_returns [OF assms(2,3)] by blast
  obtain n' w' evs where r: "send_loop C contacts dm delay 0 n w = (Inr n', w')"
      "trace w' = trace w @ evs"
      "filter is_step evs = expected_steps delay (drop 0 contacts)"
      "successCount n' + failureCount n'
         = successCount n + failureCount n + (length contacts - 0)"
    using send_loop_from [OF ret, of 0 contacts delay n w] by auto
  have new: "new_events w w' = evs"
    using r(2) by (simp add: new_events_def)
  have d: "dispatched evs = contacts"
    using dispatched_filter_is_step [of evs] r(3) by (simp add: dispatched_expected_steps)
  have sl: "filter is_sleep evs = replicate (length contacts - 1) (Sleep delay)"
    using is_sleep_filter_is_step [of evs] r(3) by (simp add: sleeps_expected_steps)
  show ?thesis
    using r(1,3,4) new d sl by simp
qed

text \<open>
  A run in which one contact is delivered to, one is not registered and one send rejects
  with an \<open>Error\<close> object: three dispatches, two sleeps.
\<close>

lemma picky_run:
  "send_loop picky_client [ani, budi, citra] ''Hi {name}'' 3000 0
     \<lparr>successCount = 0, failureCount = 0\<rparr> fresh
   = (Inr \<lparr>successCount = 1, failureCount = 2\<rparr>,
      \<lparr>client_state = (), senderInstance = False,
       trace = [Dispatch ani, GetNumberId ''62811@c.us'', SendMessage ''62811@c.us'' ''Hi Ani'',
                Sleep 3000,
                Dispatch budi, GetNumberId ''62812@c.us'',
                Sleep 3000,
                Dispatch citra, GetNumberId ''62813@c.us'',
                SendMessage ''62813@c.us'' ''Hi Citra'']\<rparr>)"
  by (simp add: sendMessage_def sendMessage_try_def read_message_def or_else_def js_replace_def
      startsWith_def emit_def sleep_def picky_client_def fake_client_def fresh_def
      ani_def budi_def citra_def)

lemma sendBulkMessages_run:
  assumes "fst (client_initialize C (client_state w)) = Ready"
    and "readContactsFromCSV fs csvFilePath = Inr contacts"
    and "contacts \<noteq> []"
    and "\<And>p s. fst (client_getNumberId C p s) \<notin> {Inl Undefined, Inl Null}"
    and "\<And>p t s. fst (client_sendMessage C p t s) \<notin> {Inl Undefined, Inl Null}"
  shows "\<exists>s f w'. sendBulkMessages C fs csvFilePath dm delay w
             = (Summary (length contacts) s f, w')
           \<and> s + f = length contacts
           \<and> filter is_step (new_events w w') = expected_steps delay contacts"
proof -
  have ret: "\<And>c w. \<exists>b w'. sendMessage C c dm w = (Inr b, w')"
    using sendMessage_returns [OF assms(4,5)] by blast
  obtain s1 where i: "client_initialize C (client_state w) = (Ready, s1)"
    using assms(1) by (cases "client_initialize C (client_state w)") auto
  let ?w1 = "emit Initialize (w\<lparr>client_state := s1\<rparr>)"
  obtain n' w' evs where r:
      "send_loop C contacts dm delay 0 \<lparr>successCount = 0, failureCount = 0\<rparr> ?w1 = (Inr n', w')"
      "trace w' = trace ?w1 @ evs"
      "filter is_step evs = expected_steps delay (drop 0 contacts)"
      "successCount n' + failureCount n'
         = successCount \<lparr>successCount = 0, failureCount = 0\<rparr>
           + failureCount \<lparr>successCount = 0, failureCount = 0\<rparr> + (length contacts - 0)"
    using send_loop_from [OF ret, of 0 contacts delay "\<lparr>successCount = 0, failureCount = 0\<rparr>" ?w1]
    by auto
  have b: "sendBulkMessages C fs csvFilePath dm delay w
      = (Summary (length contacts) (successCount n') (failureCount n'), w')"
    using i assms(2,3) r(1) by (simp add: sendBulkMessages_def)
  have new: "new_events w w' = Initialize # evs"
    using r(2) by (simp add: new_events_def emit_def)
  show ?thesis
    using b new r(3,4) by (simp add: is_step_def)
qed

text \<open>
  C1: two contacts and a client whose \<open>getNumberId\<close> rejects with \<open>undefined\<close>. The
  exception that leaves \<open>sendMessage\<close> at the first contact leaves the loop too: one
  dispatch of two and no sleep, where one dispatch per contact with a sleep between them
  is expected; \<open>sendBulkMessages\<close> catches the exception and reports no summary.
\<close>

theorem send_loop_aborts_on_nullish_rejection:
  "send_loop (fake_client Ready (\<lambda>p. Inl Undefined) (\<lambda>p t. Inr ())) [ani, citra]
     ''Hi {name}'' 3000 0 \<lparr>successCount = 0, failureCount = 0\<rparr> fresh
     = (Inl (cannot_read ''undefined'' ''message''),
        \<lparr>client_state = (), senderInstance = False,
         trace = [Dispatch ani, GetNumberId ''62811@c.us'']\<rparr>)
   \<and> expected_steps 3000 [ani, citra] = [Dispatch ani, Sleep 3000, Dispatch citra]
   \<and> sendBulkMessages (fake_client Ready (\<lambda>p. Inl Undefined) (\<lambda>p t. Inr ()))
       (\<lambda>p. Some (Rows two_rows)) ''contacts.csv'' ''Hi {name}'' 3000 fresh
     = (Caught (cannot_read ''undefined'' ''message''),
        \<lparr>client_state = (), senderInstance = False,
         trace = [Initialize, Dispatch ani, GetNumberId ''62811@c.us'']\<rparr>)"
proof -
  let ?C = "fake_client Ready (\<lambda>p. Inl Undefined) (\<lambda>p t. Inr ())"
  have s: "\<And>w. sendMessage ?C ani ''Hi {name}'' w
      = (Inl (cannot_read ''undefined'' ''message''),
         w\<lparr>trace := trace w @ [Dispatch ani, GetNumberId ''62811@c.us'']\<rparr>)"
    by (simp add: sendMessage_def sendMessage_try_def read_message_def or_else_def
        emit_def fake_client_def ani_def)
  have l: "\<And>w. send_loop ?C [ani, citra] ''Hi {name}'' 3000 0
             \<lparr>successCount = 0, failureCount = 0\<rparr> w
      = (Inl (cannot_read ''undefined'' ''message''),
         w\<lparr>trace := trace w @ [Dispatch ani, GetNumberId ''62811@c.us'']\<rparr>)"
    by (subst send_loop.simps) (simp add: s)
  have ci: "\<And>s. client_initialize ?C s = (Ready, s)"
    by (simp add: fake_client_def)
  have c: "readContactsFromCSV (\<lambda>p. Some (Rows two_rows)) ''contacts.csv'' = Inr [ani, citra]"
    by (simp add: two_rows_def readContactsFromCSV_def on_data_def truthy_def or_else_def
        or_null_def formatPhoneNumber_def is_digit_def startsWith_def substring_from_def
        ani_def citra_def)
  have b: "sendBulkMessages ?C (\<lambda>p. Some (Rows two_rows)) ''contacts.csv'' ''Hi {name}'' 3000 fresh
      = (Caught (cannot_read ''undefined'' ''message''),
         \<lparr>client_state = (), senderInstance = False,
          trace = [Initialize, Dispatch ani, GetNumberId ''62811@c.us'']\<rparr>)"
    by (simp add: sendBulkMessages_def ci c s emit_def fresh_def Let_def)
  show ?thesis
    using l [of fresh] b by (simp add: fresh_def)
qed

section \<open>sendBulkMessages on an empty contact list\<close>

text \<open>
  C7, as the claim states it, fails: with no contact in the file, the client has been
  started before the file is read, and the report is that no contacts were found, not a
  summary of three zeros.
\<close>

theorem sendBulkMessages_empty_counterexample:
  "sendBulkMessages (fake_client Ready (\<lambda>p. Inr (Some p)) (\<lambda>p t. Inr ()))
     (\<lambda>p. Some (Rows [])) ''contacts.csv'' ''Hi {name}'' 3000 fresh
   = (NoContacts, \<lparr>client_state = (), senderInstance = False, trace = [Initialize]\<rparr>)
   \<and> NoContacts \<noteq> Summary 0 0 0
   \<and> is_transport Initialize"
  by (simp add: sendBulkMessages_def readContactsFromCSV_def emit_def is_transport_def
      fake_client_def fresh_def)

text \<open>
  C7, amended: when the file yields no contact, \<open>sendBulkMessages\<close> calls
  \<open>client.initialize()\<close> and nothing else (no check of a number, no send, no sleep); it
  reports no summary, and when the client gets ready it reports that no contacts were
  found.
\<close>

theorem sendBulkMessages_empty:
  assumes "readContactsFromCSV fs csvFilePath = Inr []"
  shows "new_events w (snd (sendBulkMessages C fs csvFilePath dm delay w)) = [Initialize]
         \<and> (fst (client_initialize C (client_state w)) = Ready
              \<longrightarrow> fst (sendBulkMessages C fs csvFilePath dm delay w) = NoContacts)
         \<and> fst (sendBulkMessages C fs csvFilePath dm delay w) \<noteq> Summary k s f"
  using assms
  by (auto simp: sendBulkMessages_def Let_def emit_def new_events_def
      split: prod.splits init_outcome.splits)

theorem sendBulkMessages_empty_witness:
  "readContactsFromCSV
     (\<lambda>p. Some (Rows [\<lparr>row_name = Some ''Ani'', row_phone = Some [], row_message = None\<rparr>]))
     ''contacts.csv'' = Inr []
   \<and> sendBulkMessages (fake_client Ready (\<lambda>p. Inr (Some p)) (\<lambda>p t. Inr ()))
       (\<lambda>p. Some (Rows [\<lparr>row_name = Some ''Ani'', row_phone = Some [], row_message = None\<rparr>]))
       ''contacts.csv'' ''Hi {name}'' 3000 fresh
     = (NoContacts, \<lparr>client_state = (), senderInstance = False, trace = [Initialize]\<rparr>)"
proof -
  let ?fs = "\<lambda>p::string. Some (Rows [\<lparr>row_name = Some ''Ani'', row_phone = Some [],
                                       row_message = None\<rparr>])"
  let ?C = "fake_client Ready (\<lambda>p. Inr (Some p)) (\<lambda>p t. Inr ())"
  have e: "readContactsFromCSV ?fs ''contacts.csv'' = Inr []"
    by (simp add: readContactsFromCSV_def on_data_def truthy_def)
  have i: "fst (client_initialize ?C (client_state fresh)) = Ready"
    by (simp add: fake_client_def)
  have t: "trace (snd (sendBulkMessages ?C ?fs ''contacts.csv'' ''Hi {name}'' 3000 fresh))
      = [Initialize]"
    using sendBulkMessages_empty [OF e, of fresh ?C "''Hi {name}''" 3000]
    by (simp add: new_events_def fresh_def)
  have s: "snd (sendBulkMessages ?C ?fs ''contacts.csv'' ''Hi {name}'' 3000 fresh)
      = \<lparr>client_state = (), senderInstance = False, trace = [Initialize]\<rparr>"
    by (simp add: sendBulkMessages_def e emit_def fake_client_def fresh_def)
  show ?thesis
    using sendBulkMessages_empty [OF e, of fresh ?C "''Hi {name}''" 3000] e i s
    by (simp add: prod_eq_iff)
qed

section \<open>Properties of the request handler\<close>

lemma initWhatsAppClient_trace:
  "initWhatsAppClient C w = (r, w1) \<Longrightarrow>
     trace w1 = trace w @ (if senderInstance w then [] else [Initialize])"
  by (auto simp: initWhatsAppClient_def Let_def emit_def split: prod.splits init_outcome.splits if_splits)

text \<open>
  C9: a body without a phone or without a message (missing or empty) is answered with
  status 400 and \<open>{error: 'phone and message are required'}\<close>, the world unchanged: no
  client is made or started and nothing is dispatched. For a body with both, once
  \<open>initWhatsAppClient\<close> has resolved, the answer is \<open>{status: 'success', detail:
  'Message sent to <name>'}\<close> when \<open>sendMessage\<close> returns \<open>true\<close> and status 500 with
  \<open>{status: 'failed', detail: 'Failed to send message to <name>'}\<close> when it returns
  \<open>false\<close>.
\<close>

theorem post_send_message_responses:
  "(req_phone req = None \<or> req_message req = None
      \<or> \<not> truthy (req_phone req) \<or> \<not> truthy (req_message req)
      \<longrightarrow> post_send_message C req w
          = (Some \<lparr>status = 400, json = ErrorBody ''phone and message are required''\<rparr>, w))
   \<and> (truthy (req_phone req) \<and> truthy (req_message req)
        \<and> initWhatsAppClient C w = (Resolved, w1)
        \<and> sendMessage C \<lparr>name = or_else (req_name req) ''Unknown'',
                           phone = formatPhoneNumber (the (req_phone req)),
                           message = req_message req\<rparr> [] w1 = (Inr success, w2)
        \<longrightarrow> post_send_message C req w
            = (Some (if success
                       then \<lparr>status = 200,
                             json = StatusBody ''success''
                                      (''Message sent to '' @ or_else (req_name req) ''Unknown'')\<rparr>
                     else \<lparr>status = 500,
                           json = StatusBody ''failed''
                                    (''Failed to send message to ''
                                       @ or_else (req_name req) ''Unknown'')\<rparr>), w2))"
  by (auto simp: post_send_message_def truthy_def Let_def)

theorem post_send_message_responses_witness:
  "post_send_message (fake_client Ready (\<lambda>p. Inr (Some p)) (\<lambda>p t. Inr ()))
     \<lparr>req_name = Some ''Ani'', req_phone = None, req_message = Some ''Hi''\<rparr> fresh
     = (Some \<lparr>status = 400, json = ErrorBody ''phone and message are required''\<rparr>, fresh)
   \<and> fst (post_send_message (fake_client Ready (\<lambda>p. Inr (Some p)) (\<lambda>p t. Inr ()))
            \<lparr>req_name = Some ''Ani'', req_phone = Some ''0812'', req_message = Some ''Hi''\<rparr> fresh)
     = Some \<lparr>status = 200, json = StatusBody ''success'' ''Message sent to Ani''\<rparr>
   \<and> fst (post_send_message (fake_client Ready (\<lambda>p. Inr None) (\<lambda>p t. Inr ()))
            \<lparr>req_name = Some ''Ani'', req_phone = Some ''0812'', req_message = Some ''Hi''\<rparr> fresh)
     = Some \<lparr>status = 500, json = StatusBody ''failed'' ''Failed to send message to Ani''\<rparr>"
proof -
  let ?ok = "fake_client Ready (\<lambda>p. Inr (Some p)) (\<lambda>p t. Inr ())"
  let ?unregistered = "fake_client Ready (\<lambda>p. Inr None) (\<lambda>p t. Inr ())"
  let ?req = "\<lparr>req_name = Some ''Ani'', req_phone = Some ''0812'', req_message = Some ''Hi''\<rparr>"
  let ?c = "\<lparr>name = ''Ani'', phone = ''62812@c.us'', message = Some ''Hi''\<rparr>"
  let ?w1 = "\<lparr>client_state = (), senderInstance = True, trace = [Initialize]\<rparr>"
  have f: "formatPhoneNumber ''0812'' = ''62812@c.us''"
    by (simp add: formatPhoneNumber_def is_digit_def startsWith_def substring_from_def)
  have r: "js_replace ''Hi'' ''{name}'' ''Ani'' = ''Hi''"
    by (simp add: js_replace_def startsWith_def)
  have i1: "initWhatsAppClient ?ok fresh = (Resolved, ?w1)"
    by (simp add: initWhatsAppClient_def fake_client_def fresh_def emit_def)
  have i2: "initWhatsAppClient ?unregistered fresh = (Resolved, ?w1)"
    by (simp add: initWhatsAppClient_def fake_client_def fresh_def emit_def)
  have s1: "sendMessage ?ok ?c [] ?w1
      = (Inr True, \<lparr>client_state = (), senderInstance = True,
                    trace = [Initialize, Dispatch ?c, GetNumberId ''62812@c.us'',
                             SendMessage ''62812@c.us'' ''Hi'']\<rparr>)"
    by (simp add: sendMessage_def sendMessage_try_def or_else_def r emit_def fake_client_def
        Let_def)
  have s2: "sendMessage ?unregistered ?c [] ?w1
      = (Inr False, \<lparr>client_state = (), senderInstance = True,
                     trace = [Initialize, Dispatch ?c, GetNumberId ''62812@c.us'']\<rparr>)"
    by (simp add: sendMessage_def sendMessage_try_def or_else_def r emit_def fake_client_def
        Let_def)
  show ?thesis
    using post_send_message_responses
        [of "\<lparr>req_name = Some ''Ani'', req_phone = None, req_message = Some ''Hi''\<rparr>" ?ok fresh]
      post_send_message_responses [of ?req ?ok fresh ?w1 True, unfolded i1]
      post_send_message_responses [of ?req ?unregistered fresh ?w1 False, unfolded i2]
      s1 s2 f
    by (simp add: truthy_def or_else_def)
qed

text \<open>
  C10: for a body with a non-empty phone and message and no name, the handler, once
  \<open>initWhatsAppClient\<close> has resolved, does what \<open>sendMessage\<close> does for the contact named
  \<open>Unknown\<close> with the formatted phone and the request's message, and with the empty
  default; every dispatch of the run is of that contact, every text handed to the client
  is the request's message with its first \<open>{name}\<close> replaced by \<open>Unknown\<close>, and a success
  response means that this text was handed to the client.
\<close>

theorem post_send_message_default_name:
  assumes "req_phone req = Some p" "p \<noteq> []" "req_message req = Some m" "m \<noteq> []"
    and "req_name req = None"
  shows "(fst (initWhatsAppClient C w) = Resolved
            \<longrightarrow> snd (post_send_message C req w)
                = snd (sendMessage C \<lparr>name = ''Unknown'', phone = formatPhoneNumber p,
                                       message = Some m\<rparr> [] (snd (initWhatsAppClient C w))))
         \<and> (\<forall>e \<in> set (new_events w (snd (post_send_message C req w))).
               (\<forall>c. e = Dispatch c
                  \<longrightarrow> c = \<lparr>name = ''Unknown'', phone = formatPhoneNumber p, message = Some m\<rparr>)
               \<and> (\<forall>p' t. e = SendMessage p' t
                  \<longrightarrow> p' = formatPhoneNumber p
                    \<and> t = replace_first_with m ''{name}'' ''Unknown''))
         \<and> (fst (post_send_message C req w)
              = Some \<lparr>status = 200, json = StatusBody ''success'' ''Message sent to Unknown''\<rparr>
            \<longrightarrow> SendMessage (formatPhoneNumber p) (replace_first_with m ''{name}'' ''Unknown'')
                  \<in> set (new_events w (snd (post_send_message C req w))))"
proof -
  let ?c = "\<lparr>name = ''Unknown'', phone = formatPhoneNumber p, message = Some m\<rparr>"
  let ?text = "replace_first_with m ''{name}'' ''Unknown''"
  let ?ok = "\<lparr>status = 200, json = StatusBody ''success'' ''Message sent to Unknown''\<rparr>"
  have plain: "js_replace (or_else (message ?c) []) ''{name}'' (name ?c) = ?text"
    using assms(4) by (simp add: or_else_def js_replace_plain)
  obtain r w1 where i: "initWhatsAppClient C w = (r, w1)"
    by force
  have t1: "trace w1 = trace w @ (if senderInstance w then [] else [Initialize])"
    using initWhatsAppClient_trace [OF i] .
  obtain r2 w2 where s: "sendMessage C ?c [] w1 = (r2, w2)"
    by force
  obtain evs where evs: "trace w2 = trace w1 @ evs"
      "set evs \<subseteq> {Dispatch ?c, GetNumberId (formatPhoneNumber p),
                     SendMessage (formatPhoneNumber p) ?text}"
      "r2 = Inr True \<longrightarrow> SendMessage (formatPhoneNumber p) ?text \<in> set evs"
    using sendMessage_events [OF s] plain by auto
  show ?thesis
  proof (cases r)
    case Resolved
    have post_snd: "snd (post_send_message C req w) = w2"
      using assms i s Resolved
      by (simp add: post_send_message_def truthy_def or_else_def Let_def split: sum.splits)
    have post_ok: "fst (post_send_message C req w) = Some ?ok \<longrightarrow> r2 = Inr True"
      using assms i s Resolved
      by (auto simp: post_send_message_def truthy_def or_else_def Let_def
          split: sum.splits if_splits)
    have new: "new_events w w2 = (if senderInstance w then [] else [Initialize]) @ evs"
      using t1 evs(1) by (simp add: new_events_def)
    show ?thesis
      using post_snd post_ok new evs(2,3) i s Resolved by (auto split: if_splits)
  next
    case (Rejected e)
    have post_snd: "snd (post_send_message C req w) = w1"
      using assms i Rejected
      by (simp add: post_send_message_def truthy_def split: sum.splits)
    have post_ok: "fst (post_send_message C req w) \<noteq> Some ?ok"
      using assms i Rejected
      by (simp add: post_send_message_def truthy_def split: sum.splits)
    have new: "new_events w w1 = (if senderInstance w then [] else [Initialize])"
      using t1 by (simp add: new_events_def)
    show ?thesis
      using post_snd post_ok new i Rejected by (auto split: if_splits)
  next
    case Pending
    have post: "post_send_message C req w = (None, w1)"
      using assms i Pending by (simp add: post_send_message_def truthy_def)
    have new: "new_events w w1 = (if senderInstance w then [] else [Initialize])"
      using t1 by (simp add: new_events_def)
    show ?thesis
      using post new i Pending by (auto split: if_splits)
  qed
qed

theorem post_send_message_default_name_witness:
  "post_send_message (fake_client Ready (\<lambda>p. Inr (Some p)) (\<lambda>p t. Inr ()))
     \<lparr>req_name = None, req_phone = Some ''0812'', req_message = Some ''Hi {name}, {name}!''\<rparr> fresh
     = (Some \<lparr>status = 200, json = StatusBody ''success'' ''Message sent to Unknown''\<rparr>,
        \<lparr>client_state = (), senderInstance = True,
         trace = [Initialize,
                  Dispatch \<lparr>name = ''Unknown'', phone = ''62812@c.us'',
                            message = Some ''Hi {name}, {name}!''\<rparr>,
                  GetNumberId ''62812@c.us'',
                  SendMessage ''62812@c.us'' ''Hi Unknown, {name}!'']\<rparr>)
   \<and> SendMessage (formatPhoneNumber ''0812'')
         (replace_first_with ''Hi {name}, {name}!'' ''{name}'' ''Unknown'')
       \<in> set (new_events fresh
                (snd (post_send_message (fake_client Ready (\<lambda>p. Inr (Some p)) (\<lambda>p t. Inr ()))
                        \<lparr>req_name = None, req_phone = Some ''0812'',
                         req_message = Some ''Hi {name}, {name}!''\<rparr> fresh)))"
proof -
  let ?ok = "fake_client Ready (\<lambda>p. Inr (Some p)) (\<lambda>p t. Inr ())"
  let ?req = "\<lparr>req_name = None, req_phone = Some ''0812'',
               req_message = Some ''Hi {name}, {name}!''\<rparr>"
  have f: "formatPhoneNumber ''0812'' = ''62812@c.us''"
    by (simp add: formatPhoneNumber_def is_digit_def startsWith_def substring_from_def)
  have r: "js_replace ''Hi {name}, {name}!'' ''{name}'' ''Unknown'' = ''Hi Unknown, {name}!''"
    by (simp add: js_replace_def startsWith_def)
  have p: "post_send_message ?ok ?req fresh
     = (Some \<lparr>status = 200, json = StatusBody ''success'' ''Message sent to Unknown''\<rparr>,
        \<lparr>client_state = (), senderInstance = True,
         trace = [Initialize,
                  Dispatch \<lparr>name = ''Unknown'', phone = ''62812@c.us'',
                            message = Some ''Hi {name}, {name}!''\<rparr>,
                  GetNumberId ''62812@c.us'',
                  SendMessage ''62812@c.us'' ''Hi Unknown, {name}!'']\<rparr>)"
    by (simp add: post_send_message_def truthy_def initWhatsAppClient_def sendMessage_def
        sendMessage_try_def or_else_def f r emit_def fake_client_def fresh_def)
  have h: "req_phone ?req = Some ''0812''" "''0812'' \<noteq> []"
      "req_message ?req = Some ''Hi {name}, {name}!''" "''Hi {name}, {name}!'' \<noteq> []"
      "req_name ?req = None"
    by simp_all
  show ?thesis
    using post_send_message_default_name [OF h, of ?ok fresh] p
    by simp
qed

section \<open>Properties of initWhatsAppClient under interleaving\<close>

text \<open>
  C6: two calls, the second made while the first waits for \<open>initialize()\<close>. The second
  finds \<open>senderInstance\<close> set and returns at once with the same object, whose client is
  not ready: \<open>info\<close> is empty and the first call still waits.
\<close>

theorem second_call_before_ready:
  "run [Call, Call] cold
   = \<lparr>sender_instance = Some 0, constructed = 1, initialize_calls = [0], info = {},
      calls = [AwaitInitialize 0, Returned (Some 0)]\<rparr>"
  by (simp add: run_def cold_def)

text \<open>
  Whatever the order of calls and events, one object is made and one \<open>initialize()\<close> is
  called, and every call that returns leaves its caller with that object.
\<close>

lemma list_all_update:
  "list_all P xs \<Longrightarrow> P v \<Longrightarrow> list_all P (xs[i := v])"
  by (induction xs arbitrary: i) (auto split: nat.splits)

lemma first_object_wait_for_ready:
  "single_session r \<Longrightarrow> calls r \<noteq> [] \<Longrightarrow> first_object (wait_for_ready r)"
  by (auto simp: single_session_def wait_for_ready_def first_object_def split: if_splits)

lemma single_session_step: "single_session r \<Longrightarrow> single_session (step a r)"
proof (cases a)
  case Call
  assume "single_session r"
  then show ?thesis
    using Call by (auto simp: single_session_def first_object_def split: if_splits)
next
  case (InitializeResolves i)
  assume s: "single_session r"
  show ?thesis
  proof (cases "i < length (calls r)")
    case True
    then have ne: "calls r \<noteq> []" by auto
    have "list_all first_object ((calls r)[i := wait_for_ready r])"
      using s first_object_wait_for_ready [OF s ne]
      by (simp add: single_session_def list_all_update)
    with s True InitializeResolves show ?thesis
      by (simp add: single_session_def split: call_state.splits)
  next
    case False
    with s InitializeResolves show ?thesis by simp
  qed
next
  case (InitializeRejects i)
  assume s: "single_session r"
  have "list_all first_object ((calls r)[i := Threw])"
    using s by (simp add: single_session_def list_all_update first_object_def)
  with s InitializeRejects show ?thesis
    by (simp add: single_session_def split: call_state.splits)
next
  case (ReadyEvent k)
  assume s: "single_session r"
  then have "list_all first_object
      (map (\<lambda>c. if c = AwaitReady k then Returned (sender_instance r) else c) (calls r))"
    by (cases "calls r = []")
       (auto simp: single_session_def list_all_iff first_object_def split: if_splits)
  with s ReadyEvent show ?thesis
    by (simp add: single_session_def)
qed

lemma single_session_run: "single_session r \<Longrightarrow> single_session (run as r)"
  unfolding run_def
  by (induction as arbitrary: r) (auto simp: single_session_step)

lemma one_session_ever:
  "constructed (run as cold) \<le> 1
   \<and> length (initialize_calls (run as cold)) \<le> 1
   \<and> (\<forall>c \<in> set (calls (run as cold)). \<forall>x. c = Returned x \<longrightarrow> x = Some 0)"
proof -
  have "single_session cold"
    by (simp add: single_session_def cold_def)
  then have "single_session (run as cold)"
    by (rule single_session_run)
  then show ?thesis
    by (auto simp: single_session_def list_all_iff first_object_def)
qed

lemma later_call_returns_at_once:
  "sender_instance r = Some k \<Longrightarrow>
     step Call r = r\<lparr>calls := calls r @ [Returned (Some k)]\<rparr>"
  by simp

end
